theory Spec2Isabelle
  imports Main
begin

section \<open>Data model\<close>

text \<open>
  The tracker reads the DOM and the framework's fiber tree; it never writes to either. Both
  are therefore modelled as immutable values: an element carries the platform properties
  the code reads, and its \<open>parentElement\<close> chain; a fiber carries the three fields of
  \<open>FiberNode\<close> (\<open>type\<close>, \<open>memoizedProps\<close>, \<open>return\<close>).

  Modelling boundaries:
  \<^item> \<open>Element.matches\<close> is a platform function. It is a parameter (\<open>matcher\<close>) of every
    function that calls it, and selectors are assumed valid (the platform raises on a
    malformed selector; the source has no handler for that).
  \<^item> A value of \<open>fiber.type\<close> is a string, a function (with its optional \<open>displayName\<close>
    and its intrinsic \<open>name\<close>, both strings) or anything else.
  \<^item> A value in \<open>memoizedProps\<close> is only ever tested with \<open>typeof v === 'function'\<close>.
  \<^item> An own property of an element that holds a fiber holds a fiber or \<open>null\<close> (\<open>None\<close>).
  \<^item> Lookups in \<open>CATEGORY_MAP\<close> and \<open>EVENT_HANDLER_MAP\<close> are lookups among the keys the
    tables declare. An event name that a JavaScript object inherits (\<open>constructor\<close>,
    \<open>toString\<close>, ...) is outside the model: for such a name the source's lookup yields
    no category.
  \<^item> Strings are lists of 8-bit characters, and \<open>trim\<close> removes the six ASCII white-space
    characters; the platform's \<open>trim\<close> also removes the non-ASCII white space of Unicode.
  \<^item> Listener callbacks return normally and do not re-enter the pipeline; a call of an
    entry's \<open>wrappedCallback\<close> is recorded in a log.
\<close>

datatype ftype = TString string | TFunction (displayName: "string option") (name: string) | TOther

datatype propval = PFunction | PValue

datatype fiber = Fiber
  (type: ftype)
  (memoizedProps: "(string \<times> propval) list option")
  (return: "fiber option")

datatype element = Element
  (isHTMLElement: bool)
  (elTagName: string)
  (elId: string)
  (elClassName: string)
  (textContent: string)
  (elHref: string)
  (elType: string)
  (attributes: "(string \<times> string) list")
  (elDataset: "(string \<times> string) list")
  (ownProps: "(string \<times> fiber option) list")
  (parentElement: "element option")

type_synonym matcher = "element \<Rightarrow> string \<Rightarrow> bool"

datatype eventTarget = TargetNull | TargetNode | TargetElement element

record domEvent =
  domType :: string
  domTarget :: eventTarget

record ElementInfo =
  tagName :: string
  elementId :: string
  className :: string
  infoText :: string
  href :: "string option"
  role :: "string option"
  inputType :: "string option"
  dataset :: "(string \<times> string) list"

record FiberInfo =
  componentName :: "string option"
  componentStack :: "string list"
  handlers :: "string list"

record TrackEvent =
  trackType :: string
  timestamp :: int
  trackElement :: ElementInfo
  trackFiber :: "FiberInfo option"
  raw :: domEvent
  rawFiberNode :: "fiber option"

record ResolvedConfig =
  enabled :: bool
  ignoreSelectors :: "string list"
  includeSelectors :: "string list option"
  debug :: bool

record RegistryEntry =
  entryId :: nat
  eventType :: string
  selector :: "string option"
  once :: bool

text \<open>
  The mutable state: the registry's \<open>entries\<close> and the pipeline's \<open>lastEvent\<close> (closure
  variables of \<open>createRegistry\<close> and \<open>createPipeline\<close>), the resolver's module-level
  \<open>cachedKey\<close>, and the log of callback invocations.
\<close>

record PipelineState =
  entries :: "RegistryEntry list"
  lastEvent :: "TrackEvent option"
  cachedKey :: "string option"
  calls :: "(nat \<times> TrackEvent) list"

section \<open>Platform reads\<close>

definition startsWith :: "string \<Rightarrow> string \<Rightarrow> bool" where
  "startsWith s p = (take (length p) s = p)"

definition getAttribute :: "element \<Rightarrow> string \<Rightarrow> string option" where
  "getAttribute el a = map_of (attributes el) a"

definition hasAttribute :: "element \<Rightarrow> string \<Rightarrow> bool" where
  "hasAttribute el a = (map_of (attributes el) a \<noteq> None)"

definition isWhiteSpace :: "char \<Rightarrow> bool" where
  "isWhiteSpace c = (c \<in> set [CHR '' '', CHR 0x09, CHR 0x0A, CHR 0x0B, CHR 0x0C, CHR 0x0D])"

definition trim :: "string \<Rightarrow> string" where
  "trim s = rev (dropWhile isWhiteSpace (rev (dropWhile isWhiteSpace s)))"

section \<open>Fiber resolver\<close>

definition FIBER_PREFIXES :: "string list" where
  "FIBER_PREFIXES = [''__reactFiber$'', ''__reactInternalInstance$'']"

definition MAX_PARENT_DEPTH :: nat where
  "MAX_PARENT_DEPTH = 10"

text \<open>
  \<open>getFiberFromElement\<close>: with a cached key, read exactly that property
  (\<open>fiber != null\<close>); otherwise scan \<open>Object.keys(element)\<close> for the first key with a
  known prefix, cache it and return its value as it is. The second component of the
  result is the new \<open>cachedKey\<close>.
\<close>

definition getFiberFromElement :: "string option \<Rightarrow> element \<Rightarrow> fiber option \<times> string option" where
  "getFiberFromElement ck el =
     (case ck of
        Some k \<Rightarrow>
          (case map_of (ownProps el) k of
             Some (Some f) \<Rightarrow> (Some f, ck)
           | _ \<Rightarrow> (None, ck))
      | None \<Rightarrow>
          (case find (\<lambda>kv. list_ex (startsWith (fst kv)) FIBER_PREFIXES) (ownProps el) of
             Some kv \<Rightarrow> (snd kv, Some (fst kv))
           | None \<Rightarrow> (None, None)))"

function resolveFiberLoop ::
  "string option \<Rightarrow> element option \<Rightarrow> nat \<Rightarrow> fiber option \<times> string option" where
  "resolveFiberLoop ck current depth =
     (case current of
        None \<Rightarrow> (None, ck)
      | Some cur \<Rightarrow>
          if depth \<le> MAX_PARENT_DEPTH then
            (case getFiberFromElement ck cur of
               (Some f, ck') \<Rightarrow> (Some f, ck')
             | (None, ck') \<Rightarrow> resolveFiberLoop ck' (parentElement cur) (depth + 1))
          else (None, ck))"
  by pat_completeness auto
termination
  by (relation "measure (\<lambda>(ck, current, depth). Suc MAX_PARENT_DEPTH - depth)") auto

declare resolveFiberLoop.simps [simp del]

definition resolveFiber :: "string option \<Rightarrow> element \<Rightarrow> fiber option \<times> string option" where
  "resolveFiber ck el = resolveFiberLoop ck (Some el) 0"

definition resetFiberKeyCache :: "PipelineState \<Rightarrow> PipelineState" where
  "resetFiberKeyCache s = s\<lparr>cachedKey := None\<rparr>"

section \<open>Fiber extractor\<close>

definition MAX_STACK_DEPTH :: nat where
  "MAX_STACK_DEPTH = 50"

definition HANDLER_PREFIX :: string where
  "HANDLER_PREFIX = ''on''"

definition extractHandlers :: "fiber \<Rightarrow> string list" where
  "extractHandlers fb =
     (case memoizedProps fb of
        None \<Rightarrow> []
      | Some props \<Rightarrow>
          filter (\<lambda>key. startsWith key HANDLER_PREFIX \<and> map_of props key = Some PFunction)
            (map fst props))"

definition getComponentName :: "fiber \<Rightarrow> string option" where
  "getComponentName fb =
     (case type fb of
        TString s \<Rightarrow> None
      | TFunction dn nm \<Rightarrow> (case dn of Some d \<Rightarrow> Some d | None \<Rightarrow> Some nm)
      | TOther \<Rightarrow> None)"

function extractComponentInfoLoop ::
  "string list \<Rightarrow> string option \<Rightarrow> fiber option \<Rightarrow> nat \<Rightarrow> string option \<times> string list" where
  "extractComponentInfoLoop stack cname current depth =
     (case current of
        None \<Rightarrow> (cname, stack)
      | Some cur \<Rightarrow>
          if depth < MAX_STACK_DEPTH then
            (case getComponentName cur of
               Some nm \<Rightarrow>
                 extractComponentInfoLoop (stack @ [nm])
                   (if cname = None then Some nm else cname) (return cur) (depth + 1)
             | None \<Rightarrow> extractComponentInfoLoop stack cname (return cur) (depth + 1))
          else (cname, stack))"
  by pat_completeness auto
termination
  by (relation "measure (\<lambda>(stack, cname, current, depth). MAX_STACK_DEPTH - depth)") auto

declare extractComponentInfoLoop.simps [simp del]

definition extractComponentInfo :: "fiber \<Rightarrow> string option \<times> string list" where
  "extractComponentInfo fb = extractComponentInfoLoop [] None (return fb) 0"

definition extractFiberInfo :: "fiber option \<Rightarrow> FiberInfo option" where
  "extractFiberInfo rawFiber =
     (case rawFiber of
        None \<Rightarrow> None
      | Some fb \<Rightarrow>
          Some \<lparr>componentName = fst (extractComponentInfo fb),
                componentStack = snd (extractComponentInfo fb),
                handlers = extractHandlers fb\<rparr>)"

section \<open>Element-info extractor\<close>

definition MAX_TEXT_LENGTH :: nat where
  "MAX_TEXT_LENGTH = 100"

definition isAnchorElement :: "element \<Rightarrow> bool" where
  "isAnchorElement el = (elTagName el = ''A'')"

definition isInputElement :: "element \<Rightarrow> bool" where
  "isInputElement el = (elTagName el = ''INPUT'')"

definition extractElementInfo :: "element \<Rightarrow> ElementInfo" where
  "extractElementInfo el =
     (let txt = trim (textContent el) in
      \<lparr>tagName = elTagName el,
       elementId = elId el,
       className = elClassName el,
       infoText = (if length txt > MAX_TEXT_LENGTH then take MAX_TEXT_LENGTH txt else txt),
       href = (if isAnchorElement el then Some (elHref el) else None),
       role = getAttribute el ''role'',
       inputType = (if isInputElement el then Some (elType el) else None),
       dataset = elDataset el\<rparr>)"

section \<open>Event categories\<close>

datatype EventCategory = Pointer | Form | Ambient

definition EVENT_HANDLER_MAP :: "(string \<times> string list) list" where
  "EVENT_HANDLER_MAP =
     [(''click'', [''onClick'', ''onMouseDown'', ''onMouseUp'', ''onPointerDown'', ''onPointerUp'']),
      (''touchstart'', [''onTouchStart'']),
      (''touchend'', [''onTouchEnd'']),
      (''input'', [''onChange'', ''onInput'']),
      (''change'', [''onChange'']),
      (''focus'', [''onFocus'']),
      (''blur'', [''onBlur'']),
      (''submit'', [''onSubmit'']),
      (''scroll'', [''onScroll'']),
      (''keydown'', [''onKeyDown'']),
      (''keyup'', [''onKeyUp'']),
      (''copy'', [''onCopy'']),
      (''paste'', [''onPaste''])]"

definition CATEGORY_MAP :: "(string \<times> EventCategory) list" where
  "CATEGORY_MAP =
     [(''click'', Pointer), (''touchstart'', Pointer), (''touchend'', Pointer),
      (''input'', Form), (''change'', Form), (''focus'', Form), (''blur'', Form),
      (''submit'', Form),
      (''scroll'', Ambient), (''keydown'', Ambient), (''keyup'', Ambient),
      (''copy'', Ambient), (''paste'', Ambient)]"

definition getEventCategory :: "string \<Rightarrow> EventCategory" where
  "getEventCategory evt = (case map_of CATEGORY_MAP evt of Some c \<Rightarrow> c | None \<Rightarrow> Ambient)"

definition getHandlersForEvent :: "string \<Rightarrow> string list" where
  "getHandlersForEvent evt = (case map_of EVENT_HANDLER_MAP evt of Some hs \<Rightarrow> hs | None \<Rightarrow> [])"

section \<open>Filter engine\<close>

definition INTERACTIVE_TAGS :: "string list" where
  "INTERACTIVE_TAGS =
     [''BUTTON'', ''A'', ''INPUT'', ''SELECT'', ''TEXTAREA'', ''SUMMARY'', ''DETAILS'']"

definition INTERACTIVE_ROLES :: "string list" where
  "INTERACTIVE_ROLES =
     [''button'', ''link'', ''menuitem'', ''tab'', ''checkbox'', ''radio'',
      ''combobox'', ''listbox'', ''option'', ''switch'', ''slider'', ''spinbutton'',
      ''menuitemcheckbox'', ''menuitemradio'', ''treeitem'', ''gridcell'',
      ''textbox'', ''searchbox'']"

definition MAX_ANCESTOR_DEPTH :: nat where
  "MAX_ANCESTOR_DEPTH = 10"

definition isIgnored :: "matcher \<Rightarrow> element \<Rightarrow> string list \<Rightarrow> bool" where
  "isIgnored m el sels = list_ex (\<lambda>sel. m el sel) sels"

definition isDisabled :: "element \<Rightarrow> bool" where
  "isDisabled el = (hasAttribute el ''disabled'' \<or> getAttribute el ''aria-disabled'' = Some ''true'')"

text \<open>
  \<open>isInteractiveElement\<close> may call \<open>resolveFiber\<close>, which may set the resolver's cache:
  the second component of the result is the new \<open>cachedKey\<close>.
\<close>

definition isInteractiveElement :: "string option \<Rightarrow> element \<Rightarrow> string \<Rightarrow> bool \<times> string option" where
  "isInteractiveElement ck el evt =
     (if elTagName el \<in> set INTERACTIVE_TAGS then (True, ck)
      else if (case getAttribute el ''role'' of
                 Some r \<Rightarrow> r \<in> set INTERACTIVE_ROLES
               | None \<Rightarrow> False) then (True, ck)
      else if length (getHandlersForEvent evt) > 0 then
        (case resolveFiber ck el of
           (Some fb, ck') \<Rightarrow>
             (case memoizedProps fb of
                Some props \<Rightarrow>
                  (list_ex (\<lambda>h. map_of props h = Some PFunction) (getHandlersForEvent evt), ck')
              | None \<Rightarrow> (False, ck'))
         | (None, ck') \<Rightarrow> (False, ck'))
      else (False, ck))"

function findPointerTargetLoop ::
  "matcher \<Rightarrow> string list \<Rightarrow> string \<Rightarrow> string option \<Rightarrow> element option \<Rightarrow> nat
     \<Rightarrow> element option \<times> string option" where
  "findPointerTargetLoop m sels evt ck current depth =
     (case current of
        None \<Rightarrow> (None, ck)
      | Some cur \<Rightarrow>
          if depth \<le> MAX_ANCESTOR_DEPTH then
            if isIgnored m cur sels then (None, ck)
            else if isDisabled cur then (None, ck)
            else if fst (isInteractiveElement ck cur evt)
              then (Some cur, snd (isInteractiveElement ck cur evt))
            else findPointerTargetLoop m sels evt (snd (isInteractiveElement ck cur evt))
                   (parentElement cur) (depth + 1)
          else (None, ck))"
  by pat_completeness auto
termination
  by (relation "measure (\<lambda>(m, sels, evt, ck, current, depth). Suc MAX_ANCESTOR_DEPTH - depth)") auto

declare findPointerTargetLoop.simps [simp del]

definition findPointerTarget ::
  "matcher \<Rightarrow> string option \<Rightarrow> element \<Rightarrow> string list \<Rightarrow> string \<Rightarrow> element option \<times> string option" where
  "findPointerTarget m ck target sels evt = findPointerTargetLoop m sels evt ck (Some target) 0"

definition filterFormTarget :: "matcher \<Rightarrow> element \<Rightarrow> string list \<Rightarrow> element option" where
  "filterFormTarget m target sels =
     (if isIgnored m target sels then None
      else if isDisabled target then None
      else Some target)"

definition filterAmbientTarget :: "matcher \<Rightarrow> element \<Rightarrow> string list \<Rightarrow> element option" where
  "filterAmbientTarget m target sels =
     (if isIgnored m target sels then None else Some target)"

definition getTrackableElement ::
  "matcher \<Rightarrow> string option \<Rightarrow> element \<Rightarrow> string list \<Rightarrow> string \<Rightarrow> element option \<times> string option" where
  "getTrackableElement m ck target sels evt =
     (if \<not> isHTMLElement target then (None, ck)
      else case getEventCategory evt of
             Pointer \<Rightarrow> findPointerTarget m ck target sels evt
           | Form \<Rightarrow> (filterFormTarget m target sels, ck)
           | Ambient \<Rightarrow> (filterAmbientTarget m target sels, ck))"

section \<open>Registry and pipeline\<close>

text \<open>
  \<open>registry.invoke\<close> iterates over the entries present at the start of the call. An entry
  is skipped when its event type differs, or when it has a selector that the raw event's
  target does not match; otherwise its wrapped callback is called, and a \<open>once\<close> entry
  unsubscribes itself. The source compares entries by identity (\<open>e !== entry\<close>); the
  model gives every entry its own \<open>entryId\<close> and compares those. What a debounced or
  throttled wrapper does with the call later is outside the pipeline and not modelled.
\<close>

definition invokeEntry :: "matcher \<Rightarrow> TrackEvent \<Rightarrow> PipelineState \<Rightarrow> RegistryEntry \<Rightarrow> PipelineState" where
  "invokeEntry m ev s entry =
     (if eventType entry \<noteq> trackType ev then s
      else if (case selector entry of
                 None \<Rightarrow> False
               | Some sel \<Rightarrow>
                   (case domTarget (raw ev) of
                      TargetElement t \<Rightarrow> \<not> m t sel
                    | _ \<Rightarrow> True)) then s
      else
        (let s1 = s\<lparr>calls := calls s @ [(entryId entry, ev)]\<rparr>
         in if once entry
            then s1\<lparr>entries := filter (\<lambda>e. entryId e \<noteq> entryId entry) (entries s1)\<rparr>
            else s1))"

definition invoke :: "matcher \<Rightarrow> TrackEvent \<Rightarrow> PipelineState \<Rightarrow> PipelineState" where
  "invoke m ev s = foldl (invokeEntry m ev) s (entries s)"

text \<open>
  \<open>handleEvent\<close>; \<open>now\<close> is the value of \<open>Date.now()\<close> at assembly time. The call of
  \<open>getTrackableElement\<close> passes \<open>config.ignoreSelectors\<close> and the event type only.
\<close>

definition handleEvent ::
  "matcher \<Rightarrow> ResolvedConfig \<Rightarrow> int \<Rightarrow> domEvent \<Rightarrow> PipelineState \<Rightarrow> PipelineState" where
  "handleEvent m config now domEv s =
     (if \<not> enabled config then s
      else case domTarget domEv of
        TargetElement target \<Rightarrow>
          (case getTrackableElement m (cachedKey s) target (ignoreSelectors config) (domType domEv) of
             (None, ck1) \<Rightarrow> s\<lparr>cachedKey := ck1\<rparr>
           | (Some trackableElement, ck1) \<Rightarrow>
               (let elementInfo = extractElementInfo trackableElement;
                    rawFiber = fst (resolveFiber ck1 trackableElement);
                    ck2 = snd (resolveFiber ck1 trackableElement);
                    fiberInfo = extractFiberInfo rawFiber;
                    trackEvent = \<lparr>trackType = domType domEv, timestamp = now,
                                  trackElement = elementInfo, trackFiber = fiberInfo,
                                  raw = domEv, rawFiberNode = rawFiber\<rparr>
                in (invoke m trackEvent (s\<lparr>cachedKey := ck2\<rparr>))\<lparr>lastEvent := Some trackEvent\<rparr>))
      | _ \<Rightarrow> s)"

definition getLastEvent :: "PipelineState \<Rightarrow> TrackEvent option" where
  "getLastEvent s = lastEvent s"

section \<open>Derived notions used in the statements\<close>

text \<open>The chain of an element and its ancestors, nearest first; likewise for fibers.\<close>

fun elementChain :: "element option \<Rightarrow> element list" where
  "elementChain None = []"
| "elementChain (Some (Element h t i c tx hr ty at ds op par)) =
     Element h t i c tx hr ty at ds op par # elementChain par"


fun nthAncestor :: "nat \<Rightarrow> element \<Rightarrow> element option" where
  "nthAncestor 0 el = Some el"
| "nthAncestor (Suc n) el =
     (case parentElement el of None \<Rightarrow> None | Some p \<Rightarrow> nthAncestor n p)"




text \<open>The entries whose wrapped callback \<open>registry.invoke\<close> calls for a record.\<close>

definition accepts :: "matcher \<Rightarrow> TrackEvent \<Rightarrow> RegistryEntry \<Rightarrow> bool" where
  "accepts m ev entry =
     (eventType entry = trackType ev \<and>
      (case selector entry of
         None \<Rightarrow> True
       | Some sel \<Rightarrow> (case domTarget (raw ev) of TargetElement t \<Rightarrow> m t sel | _ \<Rightarrow> False)))"

text \<open>
  A run of \<open>handleEvent\<close> over a list of events (each with the clock value of its call),
  the record a call assembles (absent when the call is rejected), and the records
  assembled during a run, oldest first.
\<close>

fun handleEvents ::
  "matcher \<Rightarrow> ResolvedConfig \<Rightarrow> (int \<times> domEvent) list \<Rightarrow> PipelineState \<Rightarrow> PipelineState" where
  "handleEvents m config [] s = s"
| "handleEvents m config (ev # evs) s = handleEvents m config evs (handleEvent m config (fst ev) (snd ev) s)"

definition dispatched ::
  "matcher \<Rightarrow> ResolvedConfig \<Rightarrow> int \<Rightarrow> domEvent \<Rightarrow> PipelineState \<Rightarrow> TrackEvent option" where
  "dispatched m config now domEv s =
     (if \<not> enabled config then None
      else case domTarget domEv of
        TargetElement t \<Rightarrow>
          (case getTrackableElement m (cachedKey s) t (ignoreSelectors config) (domType domEv) of
             (None, ck1) \<Rightarrow> None
           | (Some el, ck1) \<Rightarrow>
               Some \<lparr>trackType = domType domEv, timestamp = now,
                     trackElement = extractElementInfo el,
                     trackFiber = extractFiberInfo (fst (resolveFiber ck1 el)),
                     raw = domEv, rawFiberNode = fst (resolveFiber ck1 el)\<rparr>)
      | _ \<Rightarrow> None)"

fun dispatchLog ::
  "matcher \<Rightarrow> ResolvedConfig \<Rightarrow> (int \<times> domEvent) list \<Rightarrow> PipelineState \<Rightarrow> TrackEvent list" where
  "dispatchLog m config [] s = []"
| "dispatchLog m config (ev # evs) s =
     (case dispatched m config (fst ev) (snd ev) s of None \<Rightarrow> [] | Some r \<Rightarrow> [r])
       @ dispatchLog m config evs (handleEvent m config (fst ev) (snd ev) s)"

section \<open>Example inputs\<close>

text \<open>
  Elements as the repository's tests build them (\<open>document.createElement\<close>,
  \<open>setAttribute\<close>, an expando property for the fiber, \<open>appendChild\<close>), and \<open>wrap n tp\<close>:
  \<open>n\<close> nested plain \<open>div\<close>s below \<open>tp\<close>, the innermost one being the value.
\<close>

definition mkElement ::
  "string \<Rightarrow> (string \<times> string) list \<Rightarrow> (string \<times> fiber option) list \<Rightarrow> element option
     \<Rightarrow> element" where
  "mkElement tg attrs props par = Element True tg [] [] [] [] [] attrs [] props par"


text \<open>
  A stand-in for \<open>Element.matches\<close> on the two selectors the examples use: the class
  selector \<open>.no-track\<close> and the descendant selector \<open>nav a\<close>.
\<close>

definition demoMatches :: matcher where
  "demoMatches el sel =
     (if sel = ''.no-track'' then elClassName el = ''no-track''
      else if sel = ''nav a'' then
        elTagName el = ''A'' \<and> list_ex (\<lambda>e. elTagName e = ''NAV'') (elementChain (parentElement el))
      else False)"





definition fiberA :: fiber where
  "fiberA = Fiber (TString ''div'') (Some []) None"

definition fiberB :: fiber where
  "fiberB = Fiber (TString ''span'') (Some []) None"

definition elementA :: element where
  "elementA = mkElement ''DIV'' [] [(''__reactFiber$abc'', Some fiberA)] None"

definition elementB :: element where
  "elementB = mkElement ''SPAN'' [] [(''__reactFiber$xyz'', Some fiberB)] None"

definition clickFiber :: fiber where
  "clickFiber = Fiber (TString ''div'') (Some [(''onClick'', PFunction)]) None"

definition fiberParent :: element where
  "fiberParent = mkElement ''DIV'' [] [(''__reactFiber$abc'', Some clickFiber)] None"

definition orphanSpan :: element where
  "orphanSpan = mkElement ''SPAN'' [] [] (Some fiberParent)"

text \<open>
  A three-level chain in which two ancestors carry a fiber, and \<open>wrapOwn n tp\<close>: \<open>n\<close>
  nested \<open>div\<close>s below \<open>tp\<close>, each with a fiber of its own that declares no handler.
\<close>

definition midDiv :: element where
  "midDiv = mkElement ''DIV'' [] [(''__reactFiber$abc'', Some clickFiber)] (Some elementA)"

definition innerSpan :: element where
  "innerSpan = mkElement ''SPAN'' [] [] (Some midDiv)"


definition navElement :: element where
  "navElement = mkElement ''NAV'' [] [] None"

definition navLink :: element where
  "navLink = mkElement ''A'' [] [] (Some navElement)"

definition plainButton :: element where
  "plainButton = mkElement ''BUTTON'' [] [] None"

definition ignoredButton :: element where
  "ignoredButton = Element True ''BUTTON'' [] ''no-track'' [] [] [] [] [] [] None"

definition spanInIgnored :: element where
  "spanInIgnored = mkElement ''SPAN'' [] [] (Some ignoredButton)"

definition disabledInput :: element where
  "disabledInput = mkElement ''INPUT'' [(''disabled'', [])] [] None"

definition ariaDisabledDiv :: element where
  "ariaDisabledDiv = mkElement ''DIV'' [(''aria-disabled'', ''true'')] [] None"

definition svgCircle :: element where
  "svgCircle = Element False ''circle'' [] [] [] [] [] [] [] [] None"

definition defaultConfig :: ResolvedConfig where
  "defaultConfig = \<lparr>enabled = True, ignoreSelectors = [], includeSelectors = None, debug = False\<rparr>"

definition initState :: PipelineState where
  "initState = \<lparr>entries = [], lastEvent = None, cachedKey = None, calls = []\<rparr>"

definition clickListener :: RegistryEntry where
  "clickListener = \<lparr>entryId = 0, eventType = ''click'', selector = None, once = False\<rparr>"

definition clickOn :: "element \<Rightarrow> domEvent" where
  "clickOn el = \<lparr>domType = ''click'', domTarget = TargetElement el\<rparr>"

lemmas fixture_defs = mkElement_def fiberA_def fiberB_def elementA_def elementB_def clickFiber_def
  fiberParent_def orphanSpan_def navElement_def navLink_def plainButton_def ignoredButton_def
  spanInIgnored_def disabledInput_def ariaDisabledDiv_def svgCircle_def defaultConfig_def
  initState_def clickListener_def clickOn_def midDiv_def innerSpan_def

lemmas code_defs = getFiberFromElement_def resolveFiber_def resolveFiberLoop.simps
  MAX_PARENT_DEPTH_def FIBER_PREFIXES_def startsWith_def isInteractiveElement_def
  INTERACTIVE_TAGS_def INTERACTIVE_ROLES_def getAttribute_def hasAttribute_def
  getHandlersForEvent_def EVENT_HANDLER_MAP_def getEventCategory_def CATEGORY_MAP_def
  findPointerTarget_def findPointerTargetLoop.simps MAX_ANCESTOR_DEPTH_def isIgnored_def
  isDisabled_def filterFormTarget_def filterAmbientTarget_def getTrackableElement_def

section \<open>The resolver's walk and cache\<close>

lemma elementChain_Some: "elementChain (Some el) = el # elementChain (parentElement el)"
  by (cases el) simp

lemma getFiberFromElement_cached_snd: "snd (getFiberFromElement (Some k) el) = Some k"
  by (simp add: getFiberFromElement_def split: option.splits)

lemma getFiberFromElement_cached_fst:
  "fst (getFiberFromElement (Some k) el) = (case map_of (ownProps el) k of Some v \<Rightarrow> v | None \<Rightarrow> None)"
  by (simp add: getFiberFromElement_def split: option.splits)

lemma getFiberFromElement_sound:
  "fst (getFiberFromElement ck el) = Some f \<Longrightarrow> \<exists>key. (key, Some f) \<in> set (ownProps el)"
  by (auto simp: getFiberFromElement_def find_Some_iff split: option.splits dest: map_of_SomeD
      intro: nth_mem) (metis nth_mem prod.collapse)

lemma resolveFiberLoop_cached_snd: "snd (resolveFiberLoop (Some k) current depth) = Some k"
proof (induction "Some k" current depth rule: resolveFiberLoop.induct)
  case (1 current depth)
  show ?case
  proof (cases current)
    case None
    then show ?thesis by (simp add: resolveFiberLoop.simps)
  next
    case (Some cur)
    show ?thesis
    proof (cases "depth \<le> MAX_PARENT_DEPTH")
      case False
      with Some show ?thesis by (simp add: resolveFiberLoop.simps)
    next
      case True
      obtain r where r: "getFiberFromElement (Some k) cur = (r, Some k)"
        using getFiberFromElement_cached_snd[of k cur] by (cases "getFiberFromElement (Some k) cur") simp
      show ?thesis
      proof (cases r)
        case None
        with 1[OF Some True r[symmetric]] Some True r show ?thesis
          by (subst resolveFiberLoop.simps) simp
      next
        case (Some f)
        with \<open>current = Some cur\<close> True r show ?thesis
          by (subst resolveFiberLoop.simps) simp
      qed
    qed
  qed
qed

lemma resolveFiberLoop_sound:
  "fst (resolveFiberLoop ck current depth) = Some f \<Longrightarrow>
     \<exists>e \<in> set (take (Suc MAX_PARENT_DEPTH - depth) (elementChain current)).
       \<exists>key. (key, Some f) \<in> set (ownProps e)"
proof (induction ck current depth rule: resolveFiberLoop.induct)
  case (1 ck current depth)
  show ?case
  proof (cases current)
    case None
    with 1(2) show ?thesis by (simp add: resolveFiberLoop.simps)
  next
    case (Some cur)
    show ?thesis
    proof (cases "depth \<le> MAX_PARENT_DEPTH")
      case False
      with Some 1(2) show ?thesis by (simp add: resolveFiberLoop.simps)
    next
      case True
      then obtain j where j: "Suc MAX_PARENT_DEPTH - depth = Suc j" "Suc MAX_PARENT_DEPTH - (depth + 1) = j"
        by (metis Suc_diff_le Suc_eq_plus1 diff_Suc_Suc)
      obtain r ck' where r: "getFiberFromElement ck cur = (r, ck')"
        by (cases "getFiberFromElement ck cur")
      show ?thesis
      proof (cases r)
        case None
        have "fst (resolveFiberLoop ck' (parentElement cur) (depth + 1)) = Some f"
          using 1(2) Some True r None by (subst (asm) resolveFiberLoop.simps) simp
        from 1(1)[OF Some True r[symmetric] None this] j Some show ?thesis
          by (auto simp: elementChain_Some)
      next
        case (Some g)
        have "g = f"
          using 1(2) \<open>current = Some cur\<close> True r Some by (subst (asm) resolveFiberLoop.simps) simp
        with getFiberFromElement_sound[of ck cur f] r Some \<open>current = Some cur\<close> j show ?thesis
          by (auto simp: elementChain_Some)
      qed
    qed
  qed
qed






section \<open>The extractor's walk\<close>



section \<open>Registry invocation and cache invariance of the filter\<close>

lemma invokeEntry_calls:
  "calls (invokeEntry m ev s entry) =
     calls s @ (if accepts m ev entry then [(entryId entry, ev)] else [])"
  by (simp add: invokeEntry_def accepts_def Let_def split: option.splits eventTarget.splits)

lemma invokeEntry_cachedKey: "cachedKey (invokeEntry m ev s entry) = cachedKey s"
  by (simp add: invokeEntry_def Let_def)

lemma invokeEntry_lastEvent: "lastEvent (invokeEntry m ev s entry) = lastEvent s"
  by (simp add: invokeEntry_def Let_def)

lemma foldl_invokeEntry_calls:
  "calls (foldl (invokeEntry m ev) s es) =
     calls s @ map (\<lambda>e. (entryId e, ev)) (filter (accepts m ev) es)"
  by (induction es arbitrary: s) (simp_all add: invokeEntry_calls)

lemma foldl_invokeEntry_cachedKey: "cachedKey (foldl (invokeEntry m ev) s es) = cachedKey s"
  by (induction es arbitrary: s) (simp_all add: invokeEntry_cachedKey)

lemma foldl_invokeEntry_lastEvent: "lastEvent (foldl (invokeEntry m ev) s es) = lastEvent s"
  by (induction es arbitrary: s) (simp_all add: invokeEntry_lastEvent)

lemma invoke_calls:
  "calls (invoke m ev s) = calls s @ map (\<lambda>e. (entryId e, ev)) (filter (accepts m ev) (entries s))"
  by (simp add: invoke_def foldl_invokeEntry_calls)

lemma invoke_cachedKey: "cachedKey (invoke m ev s) = cachedKey s"
  by (simp add: invoke_def foldl_invokeEntry_cachedKey)

lemma findPointerTargetLoop_None [simp]:
  "findPointerTargetLoop m sels evt ck None depth = (None, ck)"
  by (simp add: findPointerTargetLoop.simps)

lemma resolveFiber_cached_snd: "snd (resolveFiber (Some k) el) = Some k"
  by (simp add: resolveFiber_def resolveFiberLoop_cached_snd)

lemma isInteractiveElement_cached_snd: "snd (isInteractiveElement (Some k) el evt) = Some k"
  using resolveFiber_cached_snd[of k el]
  by (cases "resolveFiber (Some k) el") (auto simp: isInteractiveElement_def split: option.splits)

lemma findPointerTargetLoop_cached_snd:
  "snd (findPointerTargetLoop m sels evt (Some k) current depth) = Some k"
proof (induction m sels evt "Some k" current depth rule: findPointerTargetLoop.induct)
  case (1 m sels evt current depth)
  show ?case
  proof (cases current)
    case None
    then show ?thesis by simp
  next
    case (Some cur)
    have ck: "snd (isInteractiveElement (Some k) cur evt) = Some k"
      by (rule isInteractiveElement_cached_snd)
    show ?thesis
    proof (cases "depth \<le> MAX_ANCESTOR_DEPTH \<and> \<not> isIgnored m cur sels \<and> \<not> isDisabled cur
                  \<and> \<not> fst (isInteractiveElement (Some k) cur evt)")
      case True
      with 1[OF Some] Some ck show ?thesis
        by (subst findPointerTargetLoop.simps) simp
    next
      case False
      with Some ck show ?thesis
        by (subst findPointerTargetLoop.simps) auto
    qed
  qed
qed

lemma getTrackableElement_cached_snd:
  "snd (getTrackableElement m (Some k) target sels evt) = Some k"
  by (simp add: getTrackableElement_def findPointerTarget_def findPointerTargetLoop_cached_snd
      split: EventCategory.splits)

lemma getTrackableElement_cached_eq:
  "getTrackableElement m (Some k) target sels evt = (r, ck') \<Longrightarrow> ck' = Some k"
  using getTrackableElement_cached_snd[of m k target sels evt] by simp

lemma handleEvent_cachedKey:
  "cachedKey s = Some k \<Longrightarrow> cachedKey (handleEvent m config now domEv s) = Some k"
  by (auto simp: handleEvent_def Let_def invoke_cachedKey resolveFiber_cached_snd
      split: eventTarget.splits prod.splits option.splits
      dest!: getTrackableElement_cached_eq)

lemma handleEvent_lastEvent:
  "lastEvent (handleEvent m config now domEv s) =
     (case dispatched m config now domEv s of None \<Rightarrow> lastEvent s | Some r \<Rightarrow> Some r)"
  by (auto simp: handleEvent_def dispatched_def Let_def
      split: eventTarget.splits prod.splits option.splits)

lemma handleEvents_lastEvent:
  "lastEvent (handleEvents m config evs s) =
     (if dispatchLog m config evs s = [] then lastEvent s
      else Some (last (dispatchLog m config evs s)))"
  by (induction evs arbitrary: s) (auto simp: handleEvent_lastEvent split: option.splits)

lemma invoke_lastEvent: "lastEvent (invoke m ev s) = lastEvent s"
  by (simp add: invoke_def foldl_invokeEntry_lastEvent)

lemma getTrackableElement_not_HTML:
  "\<not> isHTMLElement target \<Longrightarrow> getTrackableElement m ck target sels evt = (None, ck)"
  by (simp add: getTrackableElement_def)

section \<open>The Pointer walk\<close>



lemma findPointerTargetLoop_ignored_ancestor:
  assumes "nthAncestor n cur = Some a" and "isIgnored m a sels"
    and "\<forall>i<n. \<forall>e. nthAncestor i cur = Some e \<longrightarrow> (\<forall>c. \<not> fst (isInteractiveElement c e evt))"
  shows "fst (findPointerTargetLoop m sels evt ck (Some cur) depth) = None"
  using assms(1,3)
proof (induction n arbitrary: cur depth ck)
  case 0
  then have "cur = a" by simp
  with assms(2) show ?case
    by (subst findPointerTargetLoop.simps) simp
next
  case (Suc n)
  from Suc.prems(2) have here: "\<not> fst (isInteractiveElement ck cur evt)"
    by (auto dest!: spec[of _ 0])
  from Suc.prems(1) obtain p where p: "parentElement cur = Some p" "nthAncestor n p = Some a"
    by (auto split: option.splits)
  have below: "\<forall>i<n. \<forall>e. nthAncestor i p = Some e \<longrightarrow> (\<forall>c. \<not> fst (isInteractiveElement c e evt))"
  proof (intro allI impI)
    fix i e c assume "i < n" "nthAncestor i p = Some e"
    then have "Suc i < Suc n" "nthAncestor (Suc i) cur = Some e" using p by simp_all
    with Suc.prems(2) show "\<not> fst (isInteractiveElement c e evt)"
      by blast
  qed
  from Suc.IH[OF p(2) below] here p show ?case
    by (subst findPointerTargetLoop.simps) simp
qed



lemma resolveFiber_no_props:
  assumes "\<forall>e \<in> set (elementChain (Some el)). ownProps e = []"
  shows "fst (resolveFiber ck el) = None"
proof (cases "fst (resolveFiber ck el)")
  case None
  then show ?thesis .
next
  case (Some f)
  then obtain e key where "e \<in> set (take (Suc MAX_PARENT_DEPTH - 0) (elementChain (Some el)))"
    "(key, Some f) \<in> set (ownProps e)"
    using resolveFiberLoop_sound[of ck "Some el" 0 f] by (auto simp: resolveFiber_def)
  with assms show ?thesis by (auto dest!: in_set_takeD)
qed


lemma not_interactive_without_fibers:
  assumes "\<forall>e \<in> set (elementChain (Some el)). ownProps e = []"
    and "elTagName el \<notin> set INTERACTIVE_TAGS" and "getAttribute el ''role'' = None"
  shows "\<not> fst (isInteractiveElement ck el evt)"
proof -
  have "fst (resolveFiber ck el) = None"
    by (rule resolveFiber_no_props) (rule assms(1))
  with assms(2,3) show ?thesis
    by (cases "resolveFiber ck el") (simp add: isInteractiveElement_def)
qed






section \<open>Claims\<close>

subsection \<open>Fiber resolution\<close>




text \<open>
  C5: once the cached property name is set, no resolution changes it (neither
  \<open>getFiberFromElement\<close>, nor \<open>resolveFiber\<close>, nor a whole \<open>handleEvent\<close>), and a lookup
  reads exactly that property: an element that does not carry the cached name resolves to
  absent, whatever other prefixed names it carries. A scan on which no property name has a
  known prefix returns absent and leaves the cache unset.
\<close>

theorem cachedKey_set_once:
  "snd (getFiberFromElement (Some k) el) = Some k
   \<and> snd (resolveFiber (Some k) el) = Some k
   \<and> cachedKey (handleEvent m config now domEv (s\<lparr>cachedKey := Some k\<rparr>)) = Some k
   \<and> fst (getFiberFromElement (Some k) el) =
       (case map_of (ownProps el) k of Some v \<Rightarrow> v | None \<Rightarrow> None)
   \<and> (map_of (ownProps el) k = None \<longrightarrow> getFiberFromElement (Some k) el = (None, Some k))
   \<and> (\<not> list_ex (\<lambda>kv. list_ex (startsWith (fst kv)) FIBER_PREFIXES) (ownProps el)
        \<longrightarrow> getFiberFromElement None el = (None, None))"
proof -
  have "getFiberFromElement None el = (None, None)"
    if "\<not> list_ex (\<lambda>kv. list_ex (startsWith (fst kv)) FIBER_PREFIXES) (ownProps el)"
  proof -
    from that have "find (\<lambda>kv. list_ex (startsWith (fst kv)) FIBER_PREFIXES) (ownProps el) = None"
      unfolding find_None_iff list_ex_iff by blast
    then show ?thesis by (simp add: getFiberFromElement_def)
  qed
  moreover have "map_of (ownProps el) k = None \<Longrightarrow> getFiberFromElement (Some k) el = (None, Some k)"
    by (simp add: getFiberFromElement_def)
  ultimately show ?thesis
    by (simp add: getFiberFromElement_cached_snd resolveFiber_cached_snd handleEvent_cachedKey
        getFiberFromElement_cached_fst)
qed

text \<open>
  The scenario of the claim: the key is discovered on \<open>elementA\<close> (suffix \<open>abc\<close>);
  \<open>elementB\<close> carries a fiber under the same prefix with suffix \<open>xyz\<close> and is not found.
\<close>

theorem cachedKey_set_once_witness:
  "resolveFiber None elementA = (Some fiberA, Some ''__reactFiber$abc'')
   \<and> map_of (ownProps elementB) ''__reactFiber$xyz'' = Some (Some fiberB)
   \<and> getFiberFromElement (Some ''__reactFiber$abc'') elementB = (None, Some ''__reactFiber$abc'')
   \<and> getFiberFromElement None plainButton = (None, None)"
  using cachedKey_set_once [of "''__reactFiber$abc''" elementB demoMatches defaultConfig 0
      "clickOn plainButton" initState]
    cachedKey_set_once [of "''__reactFiber$abc''" plainButton demoMatches defaultConfig 0
      "clickOn plainButton" initState]
  by (simp add: code_defs fixture_defs)

subsection \<open>Fiber extraction\<close>


subsection \<open>Filter engine\<close>

text \<open>
  C10: an event whose target is not an element (a text node, the document, the window, no
  target) leaves the whole pipeline state as it was: no callback is called and the
  last-event slot keeps its value. For an element that is not an \<open>HTMLElement\<close> (an SVG
  element), \<open>getTrackableElement\<close> returns absent before it looks at the category, for
  every event type, and \<open>handleEvent\<close> again leaves the state as it was.
\<close>

theorem non_HTMLElement_never_reported:
  "((\<forall>t. domTarget domEv \<noteq> TargetElement t) \<longrightarrow> handleEvent m config now domEv s = s)
   \<and> (\<not> isHTMLElement target \<longrightarrow> getTrackableElement m ck target sels evt = (None, ck))
   \<and> (domTarget domEv = TargetElement target \<and> \<not> isHTMLElement target \<longrightarrow>
        handleEvent m config now domEv s = s)"
  by (auto simp: handleEvent_def getTrackableElement_def split: eventTarget.splits)

text \<open>
  The statement at a text-node target and at an SVG \<open>circle\<close>, with a click listener registered.
\<close>

theorem non_HTMLElement_never_reported_witness:
  "handleEvent demoMatches defaultConfig 0 \<lparr>domType = ''scroll'', domTarget = TargetNode\<rparr>
       (initState\<lparr>entries := [clickListener]\<rparr>) = initState\<lparr>entries := [clickListener]\<rparr>
   \<and> \<not> isHTMLElement svgCircle
   \<and> getTrackableElement demoMatches None svgCircle [] ''input'' = (None, None)
   \<and> getTrackableElement demoMatches None svgCircle [] ''scroll'' = (None, None)
   \<and> handleEvent demoMatches defaultConfig 0 (clickOn svgCircle)
       (initState\<lparr>entries := [clickListener]\<rparr>) = initState\<lparr>entries := [clickListener]\<rparr>"
  using non_HTMLElement_never_reported [of "\<lparr>domType = ''scroll'', domTarget = TargetNode\<rparr>"
      demoMatches defaultConfig 0 "initState\<lparr>entries := [clickListener]\<rparr>" svgCircle None "[]" "''input''"]
    non_HTMLElement_never_reported [of "clickOn svgCircle"
      demoMatches defaultConfig 0 "initState\<lparr>entries := [clickListener]\<rparr>" svgCircle None "[]" "''scroll''"]
  by (simp add: fixture_defs)

text \<open>
  C6: a target that matches an entry of \<open>ignoreSelectors\<close> yields absent for every event
  type, hence for every category, whatever its tag, role or disabled state. In the Pointer
  walk the ignore test is the first test made on a visited element: the loop entered at an
  ignored element returns absent at once, so an ignored ancestor reached by the walk aborts
  the search even when it is interactive.
\<close>

theorem ignored_is_absolute_veto:
  "(isIgnored m target sels \<longrightarrow> getTrackableElement m ck target sels evt = (None, ck))
   \<and> (isIgnored m target sels \<longrightarrow>
        findPointerTargetLoop m sels evt ck (Some target) depth = (None, ck))
   \<and> (getEventCategory evt = Pointer \<and> isHTMLElement target \<and> nthAncestor n target = Some a
        \<and> isIgnored m a sels
        \<and> (\<forall>i<n. \<forall>e. nthAncestor i target = Some e \<longrightarrow>
              (\<forall>c. \<not> fst (isInteractiveElement c e evt)))
        \<longrightarrow> fst (getTrackableElement m ck target sels evt) = None)"
proof -
  have loop: "findPointerTargetLoop m sels evt ck (Some target) depth = (None, ck)"
    if "isIgnored m target sels" for depth
    using that by (subst findPointerTargetLoop.simps) simp
  have "getTrackableElement m ck target sels evt = (None, ck)" if "isIgnored m target sels"
    using that loop[of 0]
    by (simp add: getTrackableElement_def findPointerTarget_def filterFormTarget_def
        filterAmbientTarget_def split: EventCategory.splits)
  moreover have "fst (getTrackableElement m ck target sels evt) = None"
    if "getEventCategory evt = Pointer" "isHTMLElement target" "nthAncestor n target = Some a"
      "isIgnored m a sels"
      "\<forall>i<n. \<forall>e. nthAncestor i target = Some e \<longrightarrow> (\<forall>c. \<not> fst (isInteractiveElement c e evt))"
    using that findPointerTargetLoop_ignored_ancestor[of n target a m sels evt ck 0]
    by (simp add: getTrackableElement_def findPointerTarget_def)
  ultimately show ?thesis using loop by blast
qed

text \<open>
  The statement at a \<open>button\<close> of class \<open>no-track\<close> (an interactive tag), for a Pointer, a Form and an
  Ambient event, and at a \<open>span\<close> inside that button.
\<close>

theorem ignored_is_absolute_veto_witness:
  "isIgnored demoMatches ignoredButton [''.no-track'']
   \<and> elTagName ignoredButton \<in> set INTERACTIVE_TAGS
   \<and> getTrackableElement demoMatches None ignoredButton [''.no-track''] ''click'' = (None, None)
   \<and> getTrackableElement demoMatches None ignoredButton [''.no-track''] ''change'' = (None, None)
   \<and> getTrackableElement demoMatches None ignoredButton [''.no-track''] ''keydown'' = (None, None)
   \<and> nthAncestor 1 spanInIgnored = Some ignoredButton
   \<and> fst (getTrackableElement demoMatches None spanInIgnored [''.no-track''] ''click'') = None"
proof -
  have span: "\<forall>c. \<not> fst (isInteractiveElement c spanInIgnored ''click'')"
    by (intro allI not_interactive_without_fibers)
       (simp_all add: fixture_defs INTERACTIVE_TAGS_def getAttribute_def)
  show ?thesis
    using ignored_is_absolute_veto [of demoMatches ignoredButton "[''.no-track'']" None "''click''" 0 0 ignoredButton]
      ignored_is_absolute_veto [of demoMatches ignoredButton "[''.no-track'']" None "''change''" 0 0 ignoredButton]
      ignored_is_absolute_veto [of demoMatches ignoredButton "[''.no-track'']" None "''keydown''" 0 0 ignoredButton]
      ignored_is_absolute_veto [of demoMatches spanInIgnored "[''.no-track'']" None "''click''" 0 1 ignoredButton]
      span
    by (simp add: fixture_defs isIgnored_def demoMatches_def INTERACTIVE_TAGS_def getEventCategory_def
        CATEGORY_MAP_def)
qed

text \<open>
  C7: for a Form event a disabled target yields absent, whatever its tag. For an Ambient
  event the result for an \<open>HTMLElement\<close> target is decided by \<open>ignoreSelectors\<close> alone: the
  target is returned unless it is ignored, disabled or not. A target is disabled when it
  has a \<open>disabled\<close> attribute or its \<open>aria-disabled\<close> attribute is the string \<open>true\<close>.
\<close>

theorem disabled_filtering_asymmetric:
  "(getEventCategory evt = Form \<and> isDisabled target \<longrightarrow>
      getTrackableElement m ck target sels evt = (None, ck))
   \<and> (getEventCategory evt = Ambient \<and> isHTMLElement target \<longrightarrow>
      getTrackableElement m ck target sels evt =
        (if isIgnored m target sels then None else Some target, ck))
   \<and> isDisabled target =
        (hasAttribute target ''disabled'' \<or> getAttribute target ''aria-disabled'' = Some ''true'')"
  by (simp add: getTrackableElement_def filterFormTarget_def filterAmbientTarget_def isDisabled_def)

text \<open>
  The statement at a disabled \<open>input\<close> and at a \<open>div\<close> with \<open>aria-disabled="true"\<close>.
\<close>

theorem disabled_filtering_asymmetric_witness:
  "isDisabled disabledInput \<and> isDisabled ariaDisabledDiv
   \<and> getTrackableElement demoMatches None disabledInput [''.no-track''] ''focus'' = (None, None)
   \<and> getTrackableElement demoMatches None ariaDisabledDiv [''.no-track''] ''change'' = (None, None)
   \<and> getTrackableElement demoMatches None disabledInput [''.no-track''] ''keydown''
        = (Some disabledInput, None)
   \<and> getTrackableElement demoMatches None ariaDisabledDiv [''.no-track''] ''scroll''
        = (Some ariaDisabledDiv, None)"
  using disabled_filtering_asymmetric [of "''focus''" disabledInput demoMatches None "[''.no-track'']"]
    disabled_filtering_asymmetric [of "''change''" ariaDisabledDiv demoMatches None "[''.no-track'']"]
    disabled_filtering_asymmetric [of "''keydown''" disabledInput demoMatches None "[''.no-track'']"]
    disabled_filtering_asymmetric [of "''scroll''" ariaDisabledDiv demoMatches None "[''.no-track'']"]
  by (simp add: fixture_defs getEventCategory_def CATEGORY_MAP_def isDisabled_def hasAttribute_def
      getAttribute_def isIgnored_def demoMatches_def)



text \<open>
  C1, at the failing input. The configuration carries \<open>includeSelectors = ['nav a']\<close>; the
  \<open>button\<close> is outside any \<open>nav\<close> and does not match the selector. \<open>handleEvent\<close> passes
  \<open>getTrackableElement\<close> the ignore list and the event type only, so the button is selected
  by its tag and a record for it is dispatched.
\<close>

theorem includeSelectors_not_consulted:
  "includeSelectors (defaultConfig\<lparr>includeSelectors := Some [''nav a'']\<rparr>) = Some [''nav a'']
   \<and> \<not> demoMatches plainButton ''nav a''
   \<and> demoMatches navLink ''nav a''
   \<and> fst (getTrackableElement demoMatches None plainButton [] ''click'') = Some plainButton
   \<and> map_option (tagName \<circ> trackElement)
        (getLastEvent (handleEvent demoMatches (defaultConfig\<lparr>includeSelectors := Some [''nav a'']\<rparr>)
           0 (clickOn plainButton) initState)) = Some ''BUTTON''"
  by (simp add: code_defs fixture_defs demoMatches_def handleEvent_def getLastEvent_def Let_def
      extractElementInfo_def)

subsection \<open>Pipeline\<close>

text \<open>
  C4: a call of \<open>handleEvent\<close> that is rejected (tracker disabled, target not an element,
  filter result absent) leaves \<open>getLastEvent\<close> as it was; a call that selects an element
  sets it to the record assembled in that call, whatever the registry holds (so also with
  no listener at all). Hence after any run of calls \<open>getLastEvent\<close> is the record of the
  latest call that dispatched, or its initial value when none did.
\<close>

theorem lastEvent_is_latest_dispatch:
  "(\<not> enabled config \<longrightarrow> getLastEvent (handleEvent m config now domEv s) = getLastEvent s)
   \<and> ((\<forall>t. domTarget domEv \<noteq> TargetElement t) \<longrightarrow>
        getLastEvent (handleEvent m config now domEv s) = getLastEvent s)
   \<and> (domTarget domEv = TargetElement t
        \<and> fst (getTrackableElement m (cachedKey s) t (ignoreSelectors config) (domType domEv)) = None
      \<longrightarrow> getLastEvent (handleEvent m config now domEv s) = getLastEvent s)
   \<and> (enabled config \<and> domTarget domEv = TargetElement t
        \<and> getTrackableElement m (cachedKey s) t (ignoreSelectors config) (domType domEv)
            = (Some el, ck1)
      \<longrightarrow> getLastEvent (handleEvent m config now domEv s) =
            Some \<lparr>trackType = domType domEv, timestamp = now,
                  trackElement = extractElementInfo el,
                  trackFiber = extractFiberInfo (fst (resolveFiber ck1 el)),
                  raw = domEv, rawFiberNode = fst (resolveFiber ck1 el)\<rparr>)
   \<and> getLastEvent (handleEvents m config evs s) =
        (if dispatchLog m config evs s = [] then getLastEvent s
         else Some (last (dispatchLog m config evs s)))"
proof -
  have "getLastEvent (handleEvents m config evs s) =
        (if dispatchLog m config evs s = [] then getLastEvent s
         else Some (last (dispatchLog m config evs s)))"
    by (simp add: getLastEvent_def handleEvents_lastEvent)
  then show ?thesis
    by (auto simp: handleEvent_def getLastEvent_def Let_def
        split: eventTarget.splits prod.splits option.splits)
qed

text \<open>
  The statement with an empty registry: a click on a \<open>button\<close> is recorded, and the three kinds of
  rejected call that follow leave the record in place.
\<close>

theorem lastEvent_is_latest_dispatch_witness:
  "entries initState = []
   \<and> getLastEvent (handleEvent demoMatches defaultConfig 5 (clickOn plainButton) initState) =
       Some \<lparr>trackType = ''click'', timestamp = 5,
             trackElement = extractElementInfo plainButton, trackFiber = None,
             raw = clickOn plainButton, rawFiberNode = None\<rparr>
   \<and> getLastEvent (handleEvent demoMatches defaultConfig 6 (clickOn navElement)
        (handleEvent demoMatches defaultConfig 5 (clickOn plainButton) initState)) =
       getLastEvent (handleEvent demoMatches defaultConfig 5 (clickOn plainButton) initState)
   \<and> getLastEvent (handleEvent demoMatches (defaultConfig\<lparr>enabled := False\<rparr>) 7 (clickOn plainButton)
        (handleEvent demoMatches defaultConfig 5 (clickOn plainButton) initState)) =
       getLastEvent (handleEvent demoMatches defaultConfig 5 (clickOn plainButton) initState)
   \<and> getLastEvent (handleEvent demoMatches defaultConfig 8 \<lparr>domType = ''click'', domTarget = TargetNode\<rparr>
        (handleEvent demoMatches defaultConfig 5 (clickOn plainButton) initState)) =
       getLastEvent (handleEvent demoMatches defaultConfig 5 (clickOn plainButton) initState)"
proof -
  have sel: "getTrackableElement demoMatches None plainButton [] ''click'' = (Some plainButton, None)"
    by (simp add: code_defs fixture_defs)
  have rej: "getTrackableElement demoMatches None navElement [] ''click'' = (None, None)"
    by (simp add: code_defs fixture_defs)
  have res: "resolveFiber None plainButton = (None, None)"
    by (simp add: code_defs fixture_defs)
  have ck: "cachedKey (handleEvent demoMatches defaultConfig 5 (clickOn plainButton) initState) = None"
    by (simp add: handleEvent_def sel res Let_def invoke_cachedKey defaultConfig_def clickOn_def initState_def)
  show ?thesis
    using lastEvent_is_latest_dispatch [where config = defaultConfig and m = demoMatches and now = 5
        and domEv = "clickOn plainButton" and s = initState and t = plainButton and el = plainButton
        and ?ck1.0 = None]
      lastEvent_is_latest_dispatch [where config = defaultConfig and m = demoMatches and now = 6
        and domEv = "clickOn navElement"
        and s = "handleEvent demoMatches defaultConfig 5 (clickOn plainButton) initState"
        and t = navElement and el = navElement and ?ck1.0 = None]
      lastEvent_is_latest_dispatch [where config = "defaultConfig\<lparr>enabled := False\<rparr>"
        and m = demoMatches and now = 7 and domEv = "clickOn plainButton"
        and s = "handleEvent demoMatches defaultConfig 5 (clickOn plainButton) initState"
        and t = plainButton and el = plainButton and ?ck1.0 = None]
      lastEvent_is_latest_dispatch [where config = defaultConfig and m = demoMatches and now = 8
        and domEv = "\<lparr>domType = ''click'', domTarget = TargetNode\<rparr>"
        and s = "handleEvent demoMatches defaultConfig 5 (clickOn plainButton) initState"
        and t = plainButton and el = plainButton and ?ck1.0 = None]
    by (simp add: ck sel rej res extractFiberInfo_def)
       (simp add: defaultConfig_def clickOn_def initState_def sel rej res extractFiberInfo_def)
qed

text \<open>
  C8: when the filter selects an element and \<open>resolveFiber\<close> finds no fiber for it, the
  dispatch completes: the record has no fiber info and no raw fiber, its element info is
  that of the selected element (so its \<open>tagName\<close> is the element's), the wrapped callback
  of every entry that \<open>registry.invoke\<close> accepts for the record is called with it, and
  the record becomes the last event. (\<open>extractFiberInfo\<close> returns \<open>null\<close> for \<open>null\<close>
  before it reads anything, so this path has no operation that could raise.)
\<close>

theorem fiber_absent_does_not_gate:
  assumes "enabled config" and "domTarget domEv = TargetElement t"
    and "getTrackableElement m (cachedKey s) t (ignoreSelectors config) (domType domEv)
           = (Some el, ck1)"
    and "fst (resolveFiber ck1 el) = None"
  shows "\<exists>te. getLastEvent (handleEvent m config now domEv s) = Some te
           \<and> trackFiber te = None \<and> rawFiberNode te = None
           \<and> trackType te = domType domEv \<and> raw te = domEv
           \<and> trackElement te = extractElementInfo el
           \<and> tagName (trackElement te) = elTagName el
           \<and> calls (handleEvent m config now domEv s) =
               calls s @ map (\<lambda>e. (entryId e, te)) (filter (accepts m te) (entries s))"
  using assms
  by (simp add: handleEvent_def getLastEvent_def Let_def invoke_calls extractFiberInfo_def
      extractElementInfo_def)

text \<open>
  The statement at a click on a \<open>button\<close> without a fiber, with one click listener.
\<close>

theorem fiber_absent_does_not_gate_witness:
  "fst (resolveFiber None plainButton) = None
   \<and> map_option (tagName \<circ> trackElement)
        (getLastEvent (handleEvent demoMatches defaultConfig 5 (clickOn plainButton)
           (initState\<lparr>entries := [clickListener]\<rparr>))) = Some ''BUTTON''
   \<and> map_option trackFiber
        (getLastEvent (handleEvent demoMatches defaultConfig 5 (clickOn plainButton)
           (initState\<lparr>entries := [clickListener]\<rparr>))) = Some None
   \<and> map fst (calls (handleEvent demoMatches defaultConfig 5 (clickOn plainButton)
           (initState\<lparr>entries := [clickListener]\<rparr>))) = [entryId clickListener]"
proof -
  have en: "enabled defaultConfig"
    by (simp add: defaultConfig_def)
  have tg: "domTarget (clickOn plainButton) = TargetElement plainButton"
    by (simp add: clickOn_def)
  have sel: "getTrackableElement demoMatches (cachedKey (initState\<lparr>entries := [clickListener]\<rparr>))
      plainButton (ignoreSelectors defaultConfig) (domType (clickOn plainButton))
      = (Some plainButton, None)"
    by (simp add: code_defs fixture_defs)
  have res: "fst (resolveFiber None plainButton) = None"
    by (simp add: code_defs fixture_defs)
  from fiber_absent_does_not_gate [OF en tg sel res, of 5]
  obtain te where te: "getLastEvent (handleEvent demoMatches defaultConfig 5 (clickOn plainButton)
        (initState\<lparr>entries := [clickListener]\<rparr>)) = Some te"
      "trackFiber te = None" "trackType te = domType (clickOn plainButton)"
      "tagName (trackElement te) = elTagName plainButton"
      "calls (handleEvent demoMatches defaultConfig 5 (clickOn plainButton)
          (initState\<lparr>entries := [clickListener]\<rparr>)) =
        calls (initState\<lparr>entries := [clickListener]\<rparr>) @ map (\<lambda>e. (entryId e, te))
          (filter (accepts demoMatches te) (entries (initState\<lparr>entries := [clickListener]\<rparr>)))"
    by blast
  from te(3) have acc: "accepts demoMatches te clickListener"
    by (simp add: accepts_def clickListener_def clickOn_def)
  from te(1,2,4,5) acc res show ?thesis
    by (simp add: initState_def plainButton_def mkElement_def)
qed

end
